theory Spec2Isabelle
  imports Complex_Main
begin

section \<open>The category registry (categories.py)\<close>

text \<open>
  A Python \<^verbatim>\<open>str\<close> is modelled as a \<open>string\<close>, one \<open>char\<close> per code point, so that
  \<open>length\<close> is Python's \<^verbatim>\<open>len\<close>. A dictionary literal is an association list in
  the order it is written; \<open>dict_of\<close> builds the dictionary from it, a later
  binding of a key replacing an earlier one as in Python.
\<close>

definition dict_of :: "('k \<times> 'v) list \<Rightarrow> ('k \<rightharpoonup> 'v)" where
  "dict_of kvs = map_of (rev kvs)"

record category =
  name :: string
  display_name :: string
  description :: string

definition CATEGORIES_items :: "(int \<times> category) list" where
  "CATEGORIES_items = [
    (0, \<lparr>name = ''electronics'',
      display_name = ''Electronics'',
      description = ''Televisions, cameras, audio speakers, headphones, home theater systems, drones, wearable devices, electronic accessories, chargers, cables, and consumer electronic gadgets''\<rparr>),
    (1, \<lparr>name = ''computers_networking'',
      display_name = ''Computers & Networking'',
      description = ''Desktop computers, laptops, monitors, keyboards, mice, storage drives, RAM, graphics cards, networking routers, switches, printers, and computing components''\<rparr>),
    (2, \<lparr>name = ''mobile_phones_tablets'',
      display_name = ''Mobile Phones & Tablets'',
      description = ''Smartphones, feature phones, tablets, e-readers, phone cases, screen protectors, power banks, SIM cards, and mobile device accessories''\<rparr>),
    (3, \<lparr>name = ''fashion_clothing'',
      display_name = ''Fashion & Clothing'',
      description = ''Apparel and garments including tops, pants, dresses, skirts, suits, jackets, outerwear, underwear, activewear, uniforms, and clothing for men women and children''\<rparr>),
    (4, \<lparr>name = ''shoes_footwear'',
      display_name = ''Shoes & Footwear'',
      description = ''Sneakers, boots, sandals, heels, loafers, slippers, sports shoes, formal shoes, shoe care products, insoles, and laces for men women and children''\<rparr>),
    (5, \<lparr>name = ''bags_luggage'',
      display_name = ''Bags & Luggage'',
      description = ''Backpacks, handbags, suitcases, travel bags, laptop bags, messenger bags, duffel bags, trolley cases, wallets, clutches, and packing organizers''\<rparr>),
    (6, \<lparr>name = ''watches'',
      display_name = ''Watches'',
      description = ''Wristwatches, luxury watches, digital watches, smartwatches, watch bands, watch tools, and watch storage boxes''\<rparr>),
    (7, \<lparr>name = ''jewelry'',
      display_name = ''Jewelry'',
      description = ''Rings, necklaces, bracelets, earrings, brooches, anklets, gemstones, gold and silver jewelry, costume jewelry, and fine jewelry pieces''\<rparr>),
    (8, \<lparr>name = ''fashion_accessories'',
      display_name = ''Fashion Accessories'',
      description = ''Sunglasses, hats, caps, scarves, gloves, belts, ties, keychains, hair clips, and wearable fashion accessories not classified as clothing or jewelry''\<rparr>),
    (9, \<lparr>name = ''beauty_personal_care'',
      display_name = ''Beauty & Personal Care'',
      description = ''Skincare, makeup, cosmetics, hair care, fragrances, perfumes, oral care, bath and body products, shaving tools, grooming kits, and beauty devices''\<rparr>),
    (10, \<lparr>name = ''health_wellness'',
      display_name = ''Health & Wellness'',
      description = ''Vitamins, dietary supplements, medical devices, first aid kits, health monitors, massage equipment, personal protective equipment, and wellness products''\<rparr>),
    (11, \<lparr>name = ''sports_outdoors'',
      display_name = ''Sports & Outdoors'',
      description = ''Gym equipment, fitness gear, camping gear, hiking equipment, bicycles, fishing rods, yoga mats, sports balls, swimming goggles, and outdoor recreation products''\<rparr>),
    (12, \<lparr>name = ''home_furniture'',
      display_name = ''Home Furniture'',
      description = ''Sofas, beds, tables, chairs, wardrobes, bookshelves, desks, cabinets, mattresses, shelving units, and indoor household furniture''\<rparr>),
    (13, \<lparr>name = ''home_decor_lighting'',
      display_name = ''Home Decor & Lighting'',
      description = ''Wall art, picture frames, vases, candles, mirrors, rugs, curtains, throw pillows, ceiling lights, table lamps, floor lamps, and decorative items''\<rparr>),
    (14, \<lparr>name = ''kitchen_dining'',
      display_name = ''Kitchen & Dining'',
      description = ''Cookware, pots, pans, knives, cutting boards, dinnerware, glassware, utensils, food storage containers, bakeware, and kitchen gadgets''\<rparr>),
    (15, \<lparr>name = ''bedding_bath'',
      display_name = ''Bedding & Bath'',
      description = ''Bed sheets, pillows, blankets, comforters, duvet covers, towels, bathrobes, shower curtains, bath mats, and bathroom accessories''\<rparr>),
    (16, \<lparr>name = ''large_appliances'',
      display_name = ''Large Appliances'',
      description = ''Refrigerators, washing machines, dryers, air conditioners, dishwashers, ovens, stoves, water heaters, and large household appliances''\<rparr>),
    (17, \<lparr>name = ''small_appliances'',
      display_name = ''Small Appliances'',
      description = ''Blenders, coffee makers, toasters, microwaves, electric kettles, rice cookers, vacuum cleaners, irons, air fryers, and portable household appliances''\<rparr>),
    (18, \<lparr>name = ''grocery_food'',
      display_name = ''Grocery & Food'',
      description = ''Packaged food, fresh produce, frozen food, snacks, beverages, cooking ingredients, spices, condiments, dairy, meat, seafood, and pantry staples''\<rparr>),
    (19, \<lparr>name = ''baby_maternity'',
      display_name = ''Baby & Maternity'',
      description = ''Diapers, baby formula, feeding bottles, pacifiers, baby clothing, strollers, car seats, cribs, baby monitors, maternity wear, and infant care essentials''\<rparr>),
    (20, \<lparr>name = ''toys_games'',
      display_name = ''Toys & Games'',
      description = ''Children's toys, board games, puzzles, action figures, dolls, building blocks, remote control vehicles, educational toys, stuffed animals, and play sets''\<rparr>),
    (21, \<lparr>name = ''books_media'',
      display_name = ''Books & Media'',
      description = ''Physical books, novels, textbooks, comic books, manga, magazines, music CDs, vinyl records, movie DVDs, Blu-ray discs, and printed publications''\<rparr>),
    (22, \<lparr>name = ''stationery_office_supplies'',
      display_name = ''Stationery & Office Supplies'',
      description = ''Pens, pencils, notebooks, paper, folders, staplers, desk organizers, calculators, whiteboards, and general office and school supplies''\<rparr>),
    (23, \<lparr>name = ''pet_supplies'',
      display_name = ''Pet Supplies'',
      description = ''Pet food, treats, toys, grooming products, leashes, collars, pet beds, aquariums, cages, litter, and healthcare products for pets''\<rparr>),
    (24, \<lparr>name = ''automotive_motorcycle'',
      display_name = ''Automotive & Motorcycle'',
      description = ''Car parts, motorcycle parts, tires, car electronics, dash cams, engine oil, car care products, seat covers, and vehicle maintenance tools''\<rparr>),
    (25, \<lparr>name = ''tools_hardware'',
      display_name = ''Tools & Hardware'',
      description = ''Hand tools, power tools, drills, saws, screwdrivers, wrenches, fasteners, plumbing supplies, electrical supplies, and construction hardware''\<rparr>),
    (26, \<lparr>name = ''garden_outdoor_living'',
      display_name = ''Garden & Outdoor Living'',
      description = ''Plants, seeds, gardening tools, pots, planters, lawn mowers, outdoor furniture, grills, barbecue accessories, and irrigation equipment''\<rparr>),
    (27, \<lparr>name = ''musical_instruments'',
      display_name = ''Musical Instruments'',
      description = ''Guitars, pianos, keyboards, drums, violins, wind instruments, instrument strings, picks, amplifiers, and music recording equipment''\<rparr>),
    (28, \<lparr>name = ''video_games_gaming'',
      display_name = ''Video Games & Gaming'',
      description = ''Gaming consoles, video games, gaming controllers, gaming headsets, gaming chairs, and gaming accessories designed specifically for video gaming''\<rparr>),
    (29, \<lparr>name = ''software_digital_goods'',
      display_name = ''Software & Digital Goods'',
      description = ''Computer software, antivirus programs, operating systems, digital gift cards, e-books, online courses, and downloadable digital content''\<rparr>),
    (30, \<lparr>name = ''arts_crafts'',
      display_name = ''Arts & Crafts'',
      description = ''Painting supplies, canvas, brushes, sewing kits, knitting yarn, scrapbooking materials, craft paper, glue guns, DIY project kits, and creative hobby materials''\<rparr>),
    (31, \<lparr>name = ''industrial_commercial'',
      display_name = ''Industrial & Commercial'',
      description = ''Laboratory equipment, industrial machinery, safety gear, commercial supplies, packaging materials, janitorial products, and professional-grade tools''\<rparr>)
  ]"

definition CATEGORIES :: "int \<rightharpoonup> category" where
  "CATEGORIES = dict_of CATEGORIES_items"

text \<open>
  \<^verbatim>\<open>NAME_TO_ID = {cat["name"]: cat_id for cat_id, cat in CATEGORIES.items()}\<close>
\<close>

definition NAME_TO_ID :: "string \<rightharpoonup> int" where
  "NAME_TO_ID = dict_of (map (\<lambda>(cat_id, cat). (name cat, cat_id)) CATEGORIES_items)"

definition get_category_id :: "string \<Rightarrow> int option" where
  "get_category_id nm = NAME_TO_ID nm"

definition get_category_info :: "int \<Rightarrow> category option" where
  "get_category_info cat_id = CATEGORIES cat_id"

definition get_all_categories :: "int \<rightharpoonup> category" where
  "get_all_categories = CATEGORIES"

section \<open>Requests, responses and errors (main.py)\<close>

text \<open>
  The JSON body of a request, field by field, before validation: a field is
  left out, sent as \<^verbatim>\<open>null\<close>, or sent with a value of the declared type.
\<close>

datatype 'a field = Omitted | Null | Given 'a

record classification_body =
  body_text :: "string field"
  body_top_k :: "int field"

record batch_body =
  body_texts :: "string list field"
  body_batch_top_k :: "int field"

text \<open>
  \<^verbatim>\<open>class ClassificationRequest\<close> and \<^verbatim>\<open>class BatchRequest\<close> once validated. The
  word \<open>text\<close> is reserved, so the fields carry the prefix \<open>req\<close>;
  \<^verbatim>\<open>top_k: Optional[int]\<close> is an \<open>int option\<close>.
\<close>

record ClassificationRequest =
  req_text :: string
  req_top_k :: "int option"

record BatchRequest =
  req_texts :: "string list"
  req_batch_top_k :: "int option"

text \<open>
  A validation error names the field and the constraint that failed. The
  validator reports every failing field, in the order of the class's fields.
\<close>

datatype constraint =
    missing | string_type | list_type | int_type
  | string_too_short | string_too_long
  | too_short | too_long
  | greater_than_equal | less_than_equal

type_synonym field_error = "string \<times> constraint"

text \<open>\<^verbatim>\<open>text: str = Field(..., min_length=1, max_length=2000)\<close>\<close>

definition validate_text :: "string field \<Rightarrow> field_error list + string" where
  "validate_text f =
     (case f of
        Omitted \<Rightarrow> Inl [(''text'', missing)]
      | Null \<Rightarrow> Inl [(''text'', string_type)]
      | Given s \<Rightarrow>
          if length s < 1 then Inl [(''text'', string_too_short)]
          else if 2000 < length s then Inl [(''text'', string_too_long)]
          else Inr s)"

text \<open>\<^verbatim>\<open>texts: List[str] = Field(..., min_length=1, max_length=100)\<close>: the bounds are
  those of the list; the items are only required to be strings.\<close>

definition validate_texts :: "string list field \<Rightarrow> field_error list + string list" where
  "validate_texts f =
     (case f of
        Omitted \<Rightarrow> Inl [(''texts'', missing)]
      | Null \<Rightarrow> Inl [(''texts'', list_type)]
      | Given ts \<Rightarrow>
          if length ts < 1 then Inl [(''texts'', too_short)]
          else if 100 < length ts then Inl [(''texts'', too_long)]
          else Inr ts)"

text \<open>\<^verbatim>\<open>top_k: Optional[int] = Field(5, ge=1, le=32)\<close>\<close>

definition validate_top_k :: "int field \<Rightarrow> field_error list + int option" where
  "validate_top_k f =
     (case f of
        Omitted \<Rightarrow> Inr (Some 5)
      | Null \<Rightarrow> Inr None
      | Given k \<Rightarrow>
          if k < 1 then Inl [(''top_k'', greater_than_equal)]
          else if 32 < k then Inl [(''top_k'', less_than_equal)]
          else Inr (Some k))"

definition errors_of :: "field_error list + 'a \<Rightarrow> field_error list" where
  "errors_of r = (case r of Inl es \<Rightarrow> es | Inr _ \<Rightarrow> [])"

definition ClassificationRequest_validate ::
  "classification_body \<Rightarrow> field_error list + ClassificationRequest" where
  "ClassificationRequest_validate b =
     (case (validate_text (body_text b), validate_top_k (body_top_k b)) of
        (Inr t, Inr k) \<Rightarrow> Inr \<lparr>req_text = t, req_top_k = k\<rparr>
      | (rt, rk) \<Rightarrow> Inl (errors_of rt @ errors_of rk))"

definition BatchRequest_validate ::
  "batch_body \<Rightarrow> field_error list + BatchRequest" where
  "BatchRequest_validate b =
     (case (validate_texts (body_texts b), validate_top_k (body_batch_top_k b)) of
        (Inr ts, Inr k) \<Rightarrow> Inr \<lparr>req_texts = ts, req_batch_top_k = k\<rparr>
      | (rt, rk) \<Rightarrow> Inl (errors_of rt @ errors_of rk))"

text \<open>
  Python exceptions carry their message. What leaves an endpoint is a
  response or one of: the framework's validation error (the handler is not
  run), an \<^verbatim>\<open>HTTPException\<close> raised by the handler with its status code, or
  an exception the handler does not catch.
\<close>

datatype py_exception =
    AttributeError string
  | TypeError string
  | Exception string

fun str :: "py_exception \<Rightarrow> string" where
  "str (AttributeError m) = m"
| "str (TypeError m) = m"
| "str (Exception m) = m"

datatype http_error =
    RequestValidationError "field_error list"
  | HTTPException nat string
  | Unhandled py_exception

text \<open>
  One entry of the pipeline's output (\<^verbatim>\<open>p["label"]\<close>, \<^verbatim>\<open>p["score"]\<close>) and the
  response classes. Scores are never computed with, only passed on and
  compared, so their type \<open>'s\<close> is left open.
\<close>

record 's raw_prediction =
  label :: string
  score :: 's

record 's Prediction =
  category_id :: int
  category_name :: string
  pred_display_name :: string
  pred_score :: 's

record 's ClassificationResponse =
  resp_text :: string
  predictions :: "'s Prediction list"
  inference_time :: real

record 's BatchResponse =
  results :: "'s ClassificationResponse list"
  total_time :: real
  count :: nat

section \<open>The classifier and the application state\<close>

text \<open>
  The text-classification pipeline is external. It is called in two ways:
  \<^verbatim>\<open>classifier(text, top_k=k)\<close> with one string, giving one ranked list, and
  \<^verbatim>\<open>classifier(texts, top_k=k, batch_size=n)\<close> with a list of strings, giving a
  list of ranked lists. Either call may raise. The arguments are those the
  call site passes; \<open>None\<close> for \<open>top_k\<close> asks for every label.
\<close>

record 's pipeline =
  call_one :: "string \<Rightarrow> int option \<Rightarrow> py_exception + 's raw_prediction list"
  call_many :: "string list \<Rightarrow> int option \<Rightarrow> nat \<Rightarrow> py_exception + 's raw_prediction list list"

text \<open>
  \<^verbatim>\<open>app.state\<close>: the attribute \<^verbatim>\<open>classifier\<close> is there (\<open>Some\<close>) between the startup
  and the shutdown half of \<^verbatim>\<open>lifespan\<close>, and absent otherwise. The attributes
  \<^verbatim>\<open>model\<close> and \<^verbatim>\<open>tokenizer\<close>, set and deleted together with it, are read by
  \<^verbatim>\<open>/model-info\<close> only and are left out.

  The startup half builds the pipeline with \<^verbatim>\<open>top_k=None\<close>; \<open>make_pipeline\<close> stands
  for the external constructor, applied to that argument. The shutdown half
  deletes the attribute.
\<close>

record 's app_state =
  classifier :: "'s pipeline option"

definition lifespan_startup ::
  "(int option \<Rightarrow> 's pipeline) \<Rightarrow> 's app_state \<Rightarrow> 's app_state" where
  "lifespan_startup make_pipeline st = st\<lparr>classifier := Some (make_pipeline None)\<rparr>"

definition lifespan_shutdown :: "'s app_state \<Rightarrow> 's app_state" where
  "lifespan_shutdown st = st\<lparr>classifier := None\<rparr>"

text \<open>
  The code keeps no state field: the resource is ready exactly when the
  attribute is present, and every other phase (before the startup half has
  finished, after the shutdown half) looks the same to a handler.
\<close>

datatype ResourceState = Unloaded | Ready

definition resource_state :: "'s app_state \<Rightarrow> ResourceState" where
  "resource_state st = (case classifier st of None \<Rightarrow> Unloaded | Some _ \<Rightarrow> Ready)"

section \<open>Helpers\<close>

text \<open>\<^verbatim>\<open>xs[:k]\<close>: everything for \<^verbatim>\<open>None\<close>, the first \<open>k\<close> for \<open>k \<ge> 0\<close>, all but the last
  \<open>-k\<close> for a negative \<open>k\<close>.\<close>

fun slice_to :: "'a list \<Rightarrow> int option \<Rightarrow> 'a list" where
  "slice_to xs None = xs"
| "slice_to xs (Some k) =
     (if 0 \<le> k then take (nat k) xs else take (length xs - nat (- k)) xs)"

text \<open>A list comprehension whose body may raise: the first exception ends it.\<close>

fun comprehension :: "('a \<Rightarrow> py_exception + 'b) \<Rightarrow> 'a list \<Rightarrow> py_exception + 'b list" where
  "comprehension f [] = Inr []"
| "comprehension f (x # xs) =
     (case f x of
        Inl exc \<Rightarrow> Inl exc
      | Inr y \<Rightarrow> (case comprehension f xs of Inl exc \<Rightarrow> Inl exc | Inr ys \<Rightarrow> Inr (y # ys)))"

text \<open>
  \<^verbatim>\<open>_to_prediction\<close>. Subscripting \<^verbatim>\<open>info\<close> when \<^verbatim>\<open>get_category_info\<close> returned
  \<^verbatim>\<open>None\<close> raises \<^verbatim>\<open>TypeError\<close>. The warning written to the log is not modelled.
\<close>

definition to_prediction :: "string \<Rightarrow> 's \<Rightarrow> py_exception + 's Prediction" where
  "to_prediction lbl sc =
     (case get_category_id lbl of
        None \<Rightarrow>
          Inr \<lparr>category_id = - 1, category_name = lbl,
               pred_display_name = ''Unknown'', pred_score = sc\<rparr>
      | Some cid \<Rightarrow>
          (case get_category_info cid of
             None \<Rightarrow> Inl (TypeError ''NoneType object is not subscriptable'')
           | Some info \<Rightarrow>
               Inr \<lparr>category_id = cid, category_name = lbl,
                    pred_display_name = display_name info, pred_score = sc\<rparr>))"

section \<open>Endpoints\<close>

definition MODEL_NAME :: string where
  "MODEL_NAME = ''Lezh1n/xlm-roberta-ecommerce-classifier''"

record health_response =
  status :: string
  model :: string
  device :: string
  categories :: nat

text \<open>\<^verbatim>\<open>GET /health\<close>. \<open>DEVICE\<close> is fixed when the module is imported and is a
  parameter here.\<close>

definition health :: "string \<Rightarrow> 's app_state \<Rightarrow> http_error + health_response" where
  "health DEVICE st =
     (if classifier st = None then Inl (HTTPException 503 ''Model not loaded'')
      else Inr \<lparr>status = ''healthy'', model = MODEL_NAME, device = DEVICE,
                categories = length CATEGORIES_items\<rparr>)"

text \<open>
  \<^verbatim>\<open>POST /classify\<close>, the handler. Reading \<^verbatim>\<open>req.app.state.classifier\<close> comes
  before the \<^verbatim>\<open>try\<close>: when the attribute is absent the \<^verbatim>\<open>AttributeError\<close>
  leaves the handler uncaught. \<open>start\<close> and \<open>stop\<close> are the two readings of
  \<^verbatim>\<open>time.perf_counter()\<close>.
\<close>

definition classify ::
  "ClassificationRequest \<Rightarrow> 's app_state \<Rightarrow> real \<Rightarrow> real \<Rightarrow> http_error + 's ClassificationResponse" where
  "classify body st start stop =
     (case classifier st of
        None \<Rightarrow> Inl (Unhandled (AttributeError ''State object has no attribute classifier''))
      | Some clf \<Rightarrow>
          (case
             (case call_one clf (req_text body) (req_top_k body) of
                Inl exc \<Rightarrow> Inl exc
              | Inr raw \<Rightarrow>
                  comprehension (\<lambda>p. to_prediction (label p) (score p))
                    (slice_to raw (req_top_k body)))
           of
             Inl exc \<Rightarrow> Inl (HTTPException 500 (''Classification failed: '' @ str exc))
           | Inr preds \<Rightarrow>
               Inr \<lparr>resp_text = req_text body, predictions = preds,
                    inference_time = stop - start\<rparr>))"

text \<open>
  \<^verbatim>\<open>POST /classify/batch\<close>, the handler: one call of the pipeline with all the
  texts, then \<^verbatim>\<open>zip(body.texts, all_raw)\<close>, which stops at the shorter of the two.
\<close>

definition classify_batch ::
  "BatchRequest \<Rightarrow> 's app_state \<Rightarrow> real \<Rightarrow> real \<Rightarrow> http_error + 's BatchResponse" where
  "classify_batch body st start stop =
     (case classifier st of
        None \<Rightarrow> Inl (Unhandled (AttributeError ''State object has no attribute classifier''))
      | Some clf \<Rightarrow>
          (case
             (case call_many clf (req_texts body) (req_batch_top_k body) 32 of
                Inl exc \<Rightarrow> Inl exc
              | Inr all_raw \<Rightarrow>
                  comprehension
                    (\<lambda>(txt, raw).
                       case comprehension (\<lambda>p. to_prediction (label p) (score p))
                              (slice_to raw (req_batch_top_k body)) of
                         Inl exc \<Rightarrow> Inl exc
                       | Inr preds \<Rightarrow>
                           Inr \<lparr>resp_text = txt, predictions = preds, inference_time = 0\<rparr>)
                    (zip (req_texts body) all_raw))
           of
             Inl exc \<Rightarrow> Inl (HTTPException 500 (''Batch classification failed: '' @ str exc))
           | Inr rs \<Rightarrow>
               Inr \<lparr>results = rs, total_time = stop - start,
                    count = length (req_texts body)\<rparr>))"

text \<open>
  The routes as the framework serves them: the body is validated against the
  handler's request class, and the handler runs only on a validated request.
\<close>

definition post_classify ::
  "classification_body \<Rightarrow> 's app_state \<Rightarrow> real \<Rightarrow> real \<Rightarrow> http_error + 's ClassificationResponse" where
  "post_classify b st start stop =
     (case ClassificationRequest_validate b of
        Inl errs \<Rightarrow> Inl (RequestValidationError errs)
      | Inr body \<Rightarrow> classify body st start stop)"

definition post_classify_batch ::
  "batch_body \<Rightarrow> 's app_state \<Rightarrow> real \<Rightarrow> real \<Rightarrow> http_error + 's BatchResponse" where
  "post_classify_batch b st start stop =
     (case BatchRequest_validate b of
        Inl errs \<Rightarrow> Inl (RequestValidationError errs)
      | Inr body \<Rightarrow> classify_batch body st start stop)"

section \<open>Rankings and sample pipelines\<close>

text \<open>
  A full ranking has one entry for each of the categories, in order of
  non-increasing score.
\<close>

definition non_increasing :: "('a \<Rightarrow> 's::ord) \<Rightarrow> 'a list \<Rightarrow> bool" where
  "non_increasing f xs = sorted_wrt (\<lambda>a b. f b \<le> f a) xs"

definition full_ranking :: "('s::ord) raw_prediction list \<Rightarrow> bool" where
  "full_ranking raw \<longleftrightarrow> length raw = length CATEGORIES_items \<and> non_increasing score raw"

text \<open>
  Pipelines to run the endpoints on. \<open>ranker\<close> answers every call with the same
  full ranking, whatever \<open>top_k\<close> it is given; \<open>topk_ranker\<close> honours \<open>top_k\<close> and
  answers with the first \<open>top_k\<close> entries of that ranking; \<open>strict_ranker\<close> gives that
  ranking when asked for every label and raises when given a number;
  \<open>short_ranker\<close> knows three labels, one of them not in the registry, and
  honours \<open>top_k\<close>; \<open>failing\<close> raises on every call.
\<close>

definition sample_ranking :: "int raw_prediction list" where
  "sample_ranking = map (\<lambda>(cat_id, cat). \<lparr>label = name cat, score = - cat_id\<rparr>) CATEGORIES_items"

definition ranker :: "int pipeline" where
  "ranker = \<lparr>call_one = (\<lambda>t k. Inr sample_ranking),
             call_many = (\<lambda>ts k n. Inr (map (\<lambda>t. sample_ranking) ts))\<rparr>"

definition topk_ranker :: "int pipeline" where
  "topk_ranker = \<lparr>call_one = (\<lambda>t k. Inr (slice_to sample_ranking k)),
                  call_many = (\<lambda>ts k n. Inr (map (\<lambda>t. slice_to sample_ranking k) ts))\<rparr>"

definition strict_ranker :: "int pipeline" where
  "strict_ranker =
     \<lparr>call_one = (\<lambda>t k. case k of None \<Rightarrow> Inr sample_ranking
                          | Some _ \<Rightarrow> Inl (Exception ''top_k is not supported'')),
      call_many = (\<lambda>ts k n. case k of None \<Rightarrow> Inr (map (\<lambda>t. sample_ranking) ts)
                          | Some _ \<Rightarrow> Inl (Exception ''top_k is not supported''))\<rparr>"

definition short_ranking :: "int raw_prediction list" where
  "short_ranking =
     [\<lparr>label = ''electronics'', score = 9\<rparr>,
      \<lparr>label = ''gadgets'', score = 5\<rparr>,
      \<lparr>label = ''watches'', score = 1\<rparr>]"

definition short_ranker :: "int pipeline" where
  "short_ranker = \<lparr>call_one = (\<lambda>t k. Inr (slice_to short_ranking k)),
                   call_many = (\<lambda>ts k n. Inr (map (\<lambda>t. slice_to short_ranking k) ts))\<rparr>"

definition failing :: "int pipeline" where
  "failing = \<lparr>call_one = (\<lambda>t k. Inl (Exception ''pipeline called'')),
              call_many = (\<lambda>ts k n. Inl (Exception ''pipeline called''))\<rparr>"

section \<open>Properties of the registry\<close>

lemma dict_of_distinct: "distinct (map fst kvs) \<Longrightarrow> dict_of kvs = map_of kvs"
  unfolding dict_of_def
  by (subst map_of_inject_set) (simp_all add: rev_map [symmetric])

lemma distinct_ids: "distinct (map fst CATEGORIES_items)"
  by (simp add: CATEGORIES_items_def)

lemma distinct_names: "distinct (map (\<lambda>(cat_id, cat). name cat) CATEGORIES_items)"
  by (simp add: CATEGORIES_items_def)

lemma length_CATEGORIES_items: "length CATEGORIES_items = 32"
  by (simp add: CATEGORIES_items_def)

lemma CATEGORIES_Some_iff:
  "CATEGORIES cid = Some info \<longleftrightarrow> (cid, info) \<in> set CATEGORIES_items"
  by (simp add: CATEGORIES_def dict_of_distinct distinct_ids)

lemma NAME_TO_ID_Some_iff:
  "NAME_TO_ID nm = Some cid \<longleftrightarrow> (\<exists>info. (cid, info) \<in> set CATEGORIES_items \<and> name info = nm)"
proof -
  let ?kvs = "map (\<lambda>(cat_id, cat). (name cat, cat_id)) CATEGORIES_items"
  have eq: "map fst ?kvs = map (\<lambda>(cat_id, cat). name cat) CATEGORIES_items"
    by (simp add: case_prod_beta comp_def)
  have d: "distinct (map fst ?kvs)"
    unfolding eq by (rule distinct_names)
  have "NAME_TO_ID nm = Some cid \<longleftrightarrow> (nm, cid) \<in> set ?kvs"
    unfolding NAME_TO_ID_def dict_of_distinct [OF d] using d by simp
  also have "\<dots> \<longleftrightarrow> (\<exists>info. (cid, info) \<in> set CATEGORIES_items \<and> name info = nm)"
    by force
  finally show ?thesis .
qed

lemma info_of_id:
  "get_category_id nm = Some cid \<Longrightarrow> \<exists>info. get_category_info cid = Some info \<and> name info = nm"
  by (auto simp: get_category_id_def get_category_info_def NAME_TO_ID_Some_iff CATEGORIES_Some_iff)

lemma id_of_info:
  "get_category_info cid = Some info \<Longrightarrow> get_category_id (name info) = Some cid"
  by (auto simp: get_category_id_def get_category_info_def NAME_TO_ID_Some_iff CATEGORIES_Some_iff)

lemma get_category_info_watches:
  "get_category_info 6 =
     Some \<lparr>name = ''watches'', display_name = ''Watches'',
           description = ''Wristwatches, luxury watches, digital watches, smartwatches, watch bands, watch tools, and watch storage boxes''\<rparr>"
  by (simp add: get_category_info_def CATEGORIES_def dict_of_def CATEGORIES_items_def)

lemma get_category_id_watches: "get_category_id ''watches'' = Some 6"
  by (simp add: get_category_id_def NAME_TO_ID_def dict_of_def CATEGORIES_items_def)

lemma get_category_id_electronics: "get_category_id ''electronics'' = Some 0"
  by (simp add: get_category_id_def NAME_TO_ID_def dict_of_def CATEGORIES_items_def)

lemma get_category_id_gadgets: "get_category_id ''gadgets'' = None"
  by (simp add: get_category_id_def NAME_TO_ID_def dict_of_def CATEGORIES_items_def)

section \<open>Properties of validation\<close>

lemma validate_text_ok:
  "1 \<le> length s \<Longrightarrow> length s \<le> 2000 \<Longrightarrow> validate_text (Given s) = Inr s"
  by (auto simp: validate_text_def)

lemma validate_texts_ok:
  "1 \<le> length ts \<Longrightarrow> length ts \<le> 100 \<Longrightarrow> validate_texts (Given ts) = Inr ts"
  by (auto simp: validate_texts_def)

lemma validate_top_k_ok:
  "1 \<le> k \<Longrightarrow> k \<le> 32 \<Longrightarrow> validate_top_k (Given k) = Inr (Some k)"
  by (simp add: validate_top_k_def)

lemma omitted_top_k_is_5: "validate_top_k Omitted = Inr (Some 5)"
  by (simp add: validate_top_k_def)

lemma validate_top_k_out_of_range:
  "k < 1 \<or> 32 < k \<Longrightarrow> \<exists>c. validate_top_k (Given k) = Inl [(''top_k'', c)]"
  by (auto simp: validate_top_k_def)

lemma ClassificationRequest_bad_top_k:
  assumes "validate_top_k f = Inl es"
  shows "ClassificationRequest_validate \<lparr>body_text = tf, body_top_k = f\<rparr> =
           Inl (errors_of (validate_text tf) @ es)"
  using assms by (simp add: ClassificationRequest_validate_def errors_of_def split: sum.splits)

lemma BatchRequest_bad_top_k:
  assumes "validate_top_k f = Inl es"
  shows "BatchRequest_validate \<lparr>body_texts = tf, body_batch_top_k = f\<rparr> =
           Inl (errors_of (validate_texts tf) @ es)"
  using assms by (simp add: BatchRequest_validate_def errors_of_def split: sum.splits)

lemma ClassificationRequest_ok:
  assumes "validate_text tf = Inr s" and "validate_top_k f = Inr k"
  shows "ClassificationRequest_validate \<lparr>body_text = tf, body_top_k = f\<rparr> =
           Inr \<lparr>req_text = s, req_top_k = k\<rparr>"
  using assms by (simp add: ClassificationRequest_validate_def)

lemma BatchRequest_ok:
  assumes "validate_texts tf = Inr ts" and "validate_top_k f = Inr k"
  shows "BatchRequest_validate \<lparr>body_texts = tf, body_batch_top_k = f\<rparr> =
           Inr \<lparr>req_texts = ts, req_batch_top_k = k\<rparr>"
  using assms by (simp add: BatchRequest_validate_def)

lemma ClassificationRequest_Inr_top_k:
  "ClassificationRequest_validate b = Inr body \<Longrightarrow> validate_top_k (body_top_k b) = Inr (req_top_k body)"
  by (auto simp: ClassificationRequest_validate_def split: sum.splits)

lemma BatchRequest_Inr_top_k:
  "BatchRequest_validate b = Inr body \<Longrightarrow> validate_top_k (body_batch_top_k b) = Inr (req_batch_top_k body)"
  by (auto simp: BatchRequest_validate_def split: sum.splits)

section \<open>Properties of the helpers and the handlers\<close>

lemma to_prediction_total: "\<exists>p. to_prediction lbl sc = Inr p"
proof (cases "get_category_id lbl")
  case None
  then show ?thesis by (simp add: to_prediction_def)
next
  case (Some cid)
  from info_of_id [OF Some] obtain info where "get_category_info cid = Some info" by blast
  with Some show ?thesis by (simp add: to_prediction_def)
qed

lemma to_prediction_fields:
  "to_prediction lbl sc = Inr p \<Longrightarrow> category_name p = lbl \<and> pred_score p = sc"
  by (auto simp: to_prediction_def split: option.splits)

lemma pred_score_projr: "pred_score (projr (to_prediction lbl sc)) = sc"
  using to_prediction_total [of lbl sc] to_prediction_fields by fastforce

lemma to_prediction_electronics:
  "to_prediction ''electronics'' sc =
     Inr \<lparr>category_id = 0, category_name = ''electronics'',
          pred_display_name = ''Electronics'', pred_score = sc\<rparr>"
  by (simp add: to_prediction_def get_category_id_electronics get_category_info_def
      CATEGORIES_def dict_of_def CATEGORIES_items_def)

lemma to_prediction_watches:
  "to_prediction ''watches'' sc =
     Inr \<lparr>category_id = 6, category_name = ''watches'',
          pred_display_name = ''Watches'', pred_score = sc\<rparr>"
  by (simp add: to_prediction_def get_category_id_watches get_category_info_watches)

lemma comprehension_total:
  assumes "\<And>x. \<exists>y. f x = Inr y"
  shows "comprehension f xs = Inr (map (\<lambda>x. projr (f x)) xs)"
proof (induction xs)
  case Nil
  show ?case by simp
next
  case (Cons x xs)
  from assms obtain y where "f x = Inr y" by blast
  with Cons show ?case by simp
qed

lemma map_predictions:
  "comprehension (\<lambda>p. to_prediction (label p) (score p)) raw =
     Inr (map (\<lambda>p. projr (to_prediction (label p) (score p))) raw)"
  by (rule comprehension_total) (rule to_prediction_total)

lemma list_all2_to_prediction:
  "list_all2 (\<lambda>p q. to_prediction (label p) (score p) = Inr q) raw
     (map (\<lambda>p. projr (to_prediction (label p) (score p))) raw)"
proof -
  have "to_prediction (label p) (score p) = Inr (projr (to_prediction (label p) (score p)))"
    for p :: "('a, 'b) raw_prediction_scheme"
    using to_prediction_total [of "label p" "score p"] by auto
  then show ?thesis
    by (simp add: list_all2_conv_all_nth)
qed

lemma sorted_wrt_slice_to: "sorted_wrt R xs \<Longrightarrow> sorted_wrt R (slice_to xs k)"
  by (cases k) (auto intro: sorted_wrt_take)

lemma non_increasing_slice_to: "non_increasing f xs \<Longrightarrow> non_increasing f (slice_to xs k)"
  unfolding non_increasing_def by (rule sorted_wrt_slice_to)

lemma non_increasing_predictions:
  "non_increasing score raw \<Longrightarrow>
   non_increasing pred_score (map (\<lambda>p. projr (to_prediction (label p) (score p))) raw)"
  by (simp add: non_increasing_def sorted_wrt_map pred_score_projr)

lemma classify_ready:
  assumes "classifier st = Some clf"
    and "call_one clf (req_text body) (req_top_k body) = Inr raw"
  shows "classify body st start stop =
     Inr \<lparr>resp_text = req_text body,
          predictions = map (\<lambda>p. projr (to_prediction (label p) (score p)))
                          (slice_to raw (req_top_k body)),
          inference_time = stop - start\<rparr>"
  using assms by (simp add: classify_def map_predictions)

lemma classify_Inr_predictions:
  assumes "classify body st start stop = Inr resp"
  shows "\<exists>clf raw. classifier st = Some clf \<and>
      call_one clf (req_text body) (req_top_k body) = Inr raw \<and>
      predictions resp = map (\<lambda>p. projr (to_prediction (label p) (score p)))
                          (slice_to raw (req_top_k body))"
  using assms by (auto simp: classify_def map_predictions split: option.splits sum.splits)

lemma classify_depends_on_call:
  assumes "call_one clf (req_text body) (req_top_k body) = call_one clf' (req_text body) (req_top_k body)"
  shows "classify body (st\<lparr>classifier := Some clf\<rparr>) start stop =
         classify body (st\<lparr>classifier := Some clf'\<rparr>) start stop"
  using assms by (simp add: classify_def)

lemma classify_at_most_top_k:
  assumes "classify body st start stop = Inr resp" and "req_top_k body = Some k" and "0 \<le> k"
  shows "length (predictions resp) \<le> nat k"
proof -
  from classify_Inr_predictions [OF assms(1)] obtain clf raw where
    "classifier st = Some clf"
    "call_one clf (req_text body) (req_top_k body) = Inr raw"
    "predictions resp = map (\<lambda>p. projr (to_prediction (label p) (score p)))
                          (slice_to raw (req_top_k body))"
    by blast
  with assms(2,3) show ?thesis by simp
qed

lemma batch_results:
  "comprehension
     (\<lambda>(txt, raw).
        case comprehension (\<lambda>p. to_prediction (label p) (score p)) (slice_to raw k) of
          Inl exc \<Rightarrow> Inl exc
        | Inr preds \<Rightarrow> Inr \<lparr>resp_text = txt, predictions = preds, inference_time = 0\<rparr>)
     zs =
   Inr (map (\<lambda>(txt, raw).
          \<lparr>resp_text = txt,
           predictions = map (\<lambda>p. projr (to_prediction (label p) (score p))) (slice_to raw k),
           inference_time = 0\<rparr>) zs)"
  by (induction zs) (auto simp: map_predictions)

lemma classify_batch_ready:
  assumes "classifier st = Some clf"
    and "call_many clf (req_texts body) (req_batch_top_k body) 32 = Inr all_raw"
  shows "classify_batch body st start stop =
     Inr \<lparr>results = map (\<lambda>(txt, raw).
          \<lparr>resp_text = txt,
           predictions = map (\<lambda>p. projr (to_prediction (label p) (score p)))
                           (slice_to raw (req_batch_top_k body)),
           inference_time = 0\<rparr>) (zip (req_texts body) all_raw),
          total_time = stop - start, count = length (req_texts body)\<rparr>"
  using assms by (simp add: classify_batch_def batch_results)

lemma classify_batch_Inr_results:
  assumes "classify_batch body st start stop = Inr resp"
  shows "\<exists>clf all_raw. classifier st = Some clf \<and>
      call_many clf (req_texts body) (req_batch_top_k body) 32 = Inr all_raw \<and>
      results resp = map (\<lambda>(txt, raw).
          \<lparr>resp_text = txt,
           predictions = map (\<lambda>p. projr (to_prediction (label p) (score p)))
                           (slice_to raw (req_batch_top_k body)),
           inference_time = 0\<rparr>) (zip (req_texts body) all_raw)"
  using assms by (auto simp: classify_batch_def batch_results split: option.splits sum.splits)

lemma classify_batch_at_most_top_k:
  assumes "classify_batch body st start stop = Inr resp" and "req_batch_top_k body = Some k"
    and "0 \<le> k" and "r \<in> set (results resp)"
  shows "length (predictions r) \<le> nat k"
proof -
  from classify_batch_Inr_results [OF assms(1)] obtain clf all_raw where
    "classifier st = Some clf"
    "call_many clf (req_texts body) (req_batch_top_k body) 32 = Inr all_raw"
    "results resp = map (\<lambda>(txt, raw).
          \<lparr>resp_text = txt,
           predictions = map (\<lambda>p. projr (to_prediction (label p) (score p)))
                           (slice_to raw (req_batch_top_k body)),
           inference_time = 0\<rparr>) (zip (req_texts body) all_raw)"
    by blast
  with assms(2,3,4) show ?thesis by auto
qed

lemma list_all2_batch_results:
  "list_all2
     (\<lambda>(t, raw) r. resp_text r = t \<and>
        list_all2 (\<lambda>p q. to_prediction (label p) (score p) = Inr q)
          (slice_to raw k) (predictions r))
     zs
     (map (\<lambda>(t, raw).
          \<lparr>resp_text = t,
           predictions = map (\<lambda>p. projr (to_prediction (label p) (score p))) (slice_to raw k),
           inference_time = 0\<rparr>) zs)"
  by (induction zs) (auto simp: list_all2_to_prediction)

lemma map_resp_text_zip:
  "map resp_text (map (\<lambda>(txt, raw). \<lparr>resp_text = txt, predictions = f raw, inference_time = 0\<rparr>) (zip ts rs))
     = take (length rs) ts"
proof -
  have "map resp_text (map (\<lambda>(txt, raw). \<lparr>resp_text = txt, predictions = f raw, inference_time = 0\<rparr>) (zip ts rs))
      = map fst (zip ts rs)"
    by (simp add: case_prod_beta comp_def)
  then show ?thesis by (simp add: map_fst_zip_take min_def)
qed

lemma post_classify_rejects:
  assumes "validate_top_k f = Inl es"
  shows "post_classify \<lparr>body_text = tf, body_top_k = f\<rparr> st start stop =
           Inl (RequestValidationError (errors_of (validate_text tf) @ es))"
  by (simp add: post_classify_def ClassificationRequest_bad_top_k [OF assms])

lemma post_classify_batch_rejects:
  assumes "validate_top_k f = Inl es"
  shows "post_classify_batch \<lparr>body_texts = tf, body_batch_top_k = f\<rparr> st start stop =
           Inl (RequestValidationError (errors_of (validate_texts tf) @ es))"
  by (simp add: post_classify_batch_def BatchRequest_bad_top_k [OF assms])

lemma post_classify_at_most:
  assumes "post_classify \<lparr>body_text = tf, body_top_k = f\<rparr> st start stop = Inr resp"
    and "validate_top_k f = Inr (Some k)" and "0 \<le> k"
  shows "length (predictions resp) \<le> nat k"
proof -
  from assms(1) obtain body where
    v: "ClassificationRequest_validate \<lparr>body_text = tf, body_top_k = f\<rparr> = Inr body"
    and c: "classify body st start stop = Inr resp"
    by (auto simp: post_classify_def split: sum.splits)
  from ClassificationRequest_Inr_top_k [OF v] assms(2) have "req_top_k body = Some k"
    by simp
  with c assms(3) show ?thesis by (auto intro: classify_at_most_top_k)
qed

lemma post_classify_batch_at_most:
  assumes "post_classify_batch \<lparr>body_texts = tf, body_batch_top_k = f\<rparr> st start stop = Inr resp"
    and "validate_top_k f = Inr (Some k)" and "0 \<le> k" and "r \<in> set (results resp)"
  shows "length (predictions r) \<le> nat k"
proof -
  from assms(1) obtain body where
    v: "BatchRequest_validate \<lparr>body_texts = tf, body_batch_top_k = f\<rparr> = Inr body"
    and c: "classify_batch body st start stop = Inr resp"
    by (auto simp: post_classify_batch_def split: sum.splits)
  from BatchRequest_Inr_top_k [OF v] assms(2) have "req_batch_top_k body = Some k"
    by simp
  with c assms(3,4) show ?thesis by (auto intro: classify_batch_at_most_top_k)
qed

section \<open>The sample pipelines at work\<close>

lemma length_sample_ranking: "length sample_ranking = 32"
  by (simp add: sample_ranking_def length_CATEGORIES_items)

lemma full_ranking_sample: "full_ranking sample_ranking"
  by (simp add: full_ranking_def non_increasing_def sample_ranking_def CATEGORIES_items_def)

lemma classify_ranker_5:
  "\<exists>resp. classify \<lparr>req_text = ''tv'', req_top_k = Some 5\<rparr> \<lparr>classifier = Some ranker\<rparr> 0 1 = Inr resp \<and>
     length (predictions resp) = 5"
  by (simp add: classify_ready [where clf = ranker and raw = sample_ranking] ranker_def
      sample_ranking_def length_CATEGORIES_items)

lemma classify_ranker_32:
  "\<exists>resp. classify \<lparr>req_text = ''tv'', req_top_k = Some 32\<rparr> \<lparr>classifier = Some ranker\<rparr> 0 1 = Inr resp \<and>
     length (predictions resp) = 32"
  by (simp add: classify_ready [where clf = ranker and raw = sample_ranking] ranker_def
      sample_ranking_def length_CATEGORIES_items)

lemma classify_batch_ranker:
  "\<exists>bresp. classify_batch \<lparr>req_texts = [''tv'', ''radio''], req_batch_top_k = Some k\<rparr>
              \<lparr>classifier = Some ranker\<rparr> 0 1 = Inr bresp \<and>
     map (\<lambda>r. length (predictions r)) (results bresp) =
       [length (slice_to sample_ranking (Some k)), length (slice_to sample_ranking (Some k))]"
  by (simp add: classify_batch_ready [where clf = ranker and all_raw = "[sample_ranking, sample_ranking]"]
      ranker_def)

section \<open>The claims\<close>

text \<open>
  C1. The specification asks for a service-unavailable error from \<^verbatim>\<open>/classify\<close>
  while the classifier is not loaded. After the shutdown half of \<open>lifespan\<close> the
  state has no classifier; there \<^verbatim>\<open>/health\<close> raises the 503 error, but
  \<^verbatim>\<open>/classify\<close> reads the missing attribute outside its \<^verbatim>\<open>try\<close> and ends in an
  uncaught \<^verbatim>\<open>AttributeError\<close>.
\<close>

theorem classify_unloaded_uncaught:
  "lifespan_shutdown (lifespan_startup (\<lambda>top_k. ranker) \<lparr>classifier = None\<rparr>) =
     \<lparr>classifier = None\<rparr> \<and>
   resource_state \<lparr>classifier = None :: int pipeline option\<rparr> = Unloaded \<and>
   post_classify \<lparr>body_text = Given ''tv'', body_top_k = Given 5\<rparr>
       \<lparr>classifier = None :: int pipeline option\<rparr> 0 1 =
     Inl (Unhandled (AttributeError ''State object has no attribute classifier'')) \<and>
   health ''cpu'' \<lparr>classifier = None :: int pipeline option\<rparr> =
     Inl (HTTPException 503 ''Model not loaded'')"
  by (simp add: lifespan_startup_def lifespan_shutdown_def resource_state_def post_classify_def
      ClassificationRequest_validate_def validate_text_def validate_top_k_def classify_def
      health_def)

text \<open>
  C2. The specification asks for a validation error when an item of a batch is
  empty or longer than 2000 characters. The single route rejects both texts; the
  batch route accepts a batch holding them and hands it to the classifier: a
  classifier that raises as soon as it is called makes the route fail with its
  exception, and one that answers gets its answer for the empty text returned.
\<close>

theorem batch_items_not_validated:
  "post_classify \<lparr>body_text = Given '''', body_top_k = Omitted\<rparr> \<lparr>classifier = Some failing\<rparr> 0 1 =
     Inl (RequestValidationError [(''text'', string_too_short)]) \<and>
   post_classify \<lparr>body_text = Given (replicate 2001 (CHR ''a'')), body_top_k = Omitted\<rparr>
       \<lparr>classifier = Some failing\<rparr> 0 1 =
     Inl (RequestValidationError [(''text'', string_too_long)]) \<and>
   BatchRequest_validate
       \<lparr>body_texts = Given ['''', replicate 2001 (CHR ''a'')], body_batch_top_k = Omitted\<rparr> =
     Inr \<lparr>req_texts = ['''', replicate 2001 (CHR ''a'')], req_batch_top_k = Some 5\<rparr> \<and>
   post_classify_batch
       \<lparr>body_texts = Given ['''', replicate 2001 (CHR ''a'')], body_batch_top_k = Omitted\<rparr>
       \<lparr>classifier = Some failing\<rparr> 0 1 =
     Inl (HTTPException 500 ''Batch classification failed: pipeline called'') \<and>
   post_classify_batch \<lparr>body_texts = Given [''''], body_batch_top_k = Given 1\<rparr>
       \<lparr>classifier = Some short_ranker\<rparr> 0 1 =
     Inr \<lparr>results =
            [\<lparr>resp_text = '''',
              predictions = [\<lparr>category_id = 0, category_name = ''electronics'',
                              pred_display_name = ''Electronics'', pred_score = 9\<rparr>],
              inference_time = 0\<rparr>],
          total_time = 1, count = 1\<rparr>"
  by (simp add: post_classify_def ClassificationRequest_validate_def validate_text_def
      validate_top_k_def errors_of_def post_classify_batch_def BatchRequest_validate_def
      validate_texts_def classify_batch_def failing_def short_ranker_def short_ranking_def
      to_prediction_electronics)

text \<open>
  C3. A request with a text of 1 to 2000 characters and \<open>top_k\<close> between 1 and
  32, served while the classifier is loaded and answers the call with a
  ranking of at least \<open>top_k\<close> entries, gets exactly \<open>top_k\<close> predictions in
  order of non-increasing score. The answer may be the full ranking of all 32
  categories or, from a classifier that honours the \<open>top_k\<close> it is handed, just
  its first \<open>top_k\<close> entries.
\<close>

theorem classify_top_k_sorted:
  fixes raw :: "('s::ord) raw_prediction list"
  assumes "1 \<le> length t" and "length t \<le> 2000" and "1 \<le> k" and "k \<le> 32"
    and "classifier st = Some clf"
    and "call_one clf t (Some k) = Inr raw"
    and "nat k \<le> length raw"
    and "non_increasing score raw"
  shows "\<exists>resp. post_classify \<lparr>body_text = Given t, body_top_k = Given k\<rparr> st start stop = Inr resp \<and>
           resp_text resp = t \<and>
           length (predictions resp) = nat k \<and>
           non_increasing pred_score (predictions resp)"
proof -
  let ?body = "\<lparr>req_text = t, req_top_k = Some k\<rparr>"
  have v: "ClassificationRequest_validate \<lparr>body_text = Given t, body_top_k = Given k\<rparr> = Inr ?body"
    using assms(1-4) by (simp add: ClassificationRequest_ok validate_text_ok validate_top_k_ok)
  have c: "classify ?body st start stop =
     Inr \<lparr>resp_text = t,
          predictions = map (\<lambda>p. projr (to_prediction (label p) (score p))) (slice_to raw (Some k)),
          inference_time = stop - start\<rparr>"
    using classify_ready [of st clf ?body raw start stop] assms(5,6) by simp
  have len: "length (slice_to raw (Some k)) = nat k"
    using assms(3,7) by simp
  have srt: "non_increasing score (slice_to raw (Some k))"
    using assms(8) by (rule non_increasing_slice_to)
  show ?thesis
    unfolding post_classify_def v using c len non_increasing_predictions [OF srt]
    by simp
qed

theorem classify_top_k_sorted_witness:
  "call_one topk_ranker ''tv'' (Some 3) = Inr (take 3 sample_ranking) \<and>
   (\<exists>resp. post_classify \<lparr>body_text = Given ''tv'', body_top_k = Given 3\<rparr>
             \<lparr>classifier = Some topk_ranker\<rparr> 0 1 = Inr resp \<and>
          resp_text resp = ''tv'' \<and>
          length (predictions resp) = 3 \<and>
          non_increasing pred_score (predictions resp)) \<and>
   call_one ranker ''tv'' (Some 3) = Inr sample_ranking \<and>
   full_ranking sample_ranking \<and>
   (\<exists>resp. post_classify \<lparr>body_text = Given ''tv'', body_top_k = Given 3\<rparr>
             \<lparr>classifier = Some ranker\<rparr> 0 1 = Inr resp \<and>
          resp_text resp = ''tv'' \<and>
          length (predictions resp) = 3 \<and>
          non_increasing pred_score (predictions resp))"
proof -
  have srt: "non_increasing score sample_ranking"
    using full_ranking_sample by (simp add: full_ranking_def)
  have a: "call_one topk_ranker ''tv'' (Some 3) = Inr (take 3 sample_ranking)"
    by (simp add: topk_ranker_def)
  have a_len: "nat 3 \<le> length (take 3 sample_ranking)"
    by (simp add: length_sample_ranking)
  have a_srt: "non_increasing score (take 3 sample_ranking)"
    using non_increasing_slice_to [OF srt, of "Some 3"] by simp
  have b: "call_one ranker ''tv'' (Some 3) = Inr sample_ranking"
    by (simp add: ranker_def)
  have b_len: "nat 3 \<le> length sample_ranking"
    by (simp add: length_sample_ranking)
  from classify_top_k_sorted
    [of "''tv''" 3 "\<lparr>classifier = Some topk_ranker\<rparr>" topk_ranker "take 3 sample_ranking" 0 1]
    a a_len a_srt
  have honours: "\<exists>resp. post_classify \<lparr>body_text = Given ''tv'', body_top_k = Given 3\<rparr>
             \<lparr>classifier = Some topk_ranker\<rparr> 0 1 = Inr resp \<and>
          resp_text resp = ''tv'' \<and>
          length (predictions resp) = 3 \<and>
          non_increasing pred_score (predictions resp)"
    by simp
  from classify_top_k_sorted
    [of "''tv''" 3 "\<lparr>classifier = Some ranker\<rparr>" ranker sample_ranking 0 1]
    b b_len srt
  have ignores: "\<exists>resp. post_classify \<lparr>body_text = Given ''tv'', body_top_k = Given 3\<rparr>
             \<lparr>classifier = Some ranker\<rparr> 0 1 = Inr resp \<and>
          resp_text resp = ''tv'' \<and>
          length (predictions resp) = 3 \<and>
          non_increasing pred_score (predictions resp)"
    by simp
  from a honours b full_ranking_sample ignores show ?thesis
    by (intro conjI)
qed

text \<open>
  C4. A batch request served while the classifier is loaded and answers with
  one ranked list per text gets as many results as it has texts, the result
  at each index carrying the text at that index.
\<close>

theorem classify_batch_order:
  assumes "classifier st = Some clf"
    and "call_many clf (req_texts body) (req_batch_top_k body) 32 = Inr all_raw"
    and "length all_raw = length (req_texts body)"
  shows "\<exists>resp. classify_batch body st start stop = Inr resp \<and>
           length (results resp) = length (req_texts body) \<and>
           map resp_text (results resp) = req_texts body \<and>
           (\<forall>i. i < length (req_texts body) \<longrightarrow> resp_text (results resp ! i) = req_texts body ! i)"
proof -
  let ?rs = "map (\<lambda>(txt, raw).
          \<lparr>resp_text = txt,
           predictions = map (\<lambda>p. projr (to_prediction (label p) (score p)))
                           (slice_to raw (req_batch_top_k body)),
           inference_time = 0\<rparr>) (zip (req_texts body) all_raw)"
  let ?resp = "\<lparr>results = ?rs, total_time = stop - start, count = length (req_texts body)\<rparr>"
  have r: "classify_batch body st start stop = Inr ?resp"
    using assms(1,2) by (rule classify_batch_ready)
  have len: "length ?rs = length (req_texts body)"
    using assms(3) by simp
  have texts_eq: "map resp_text ?rs = req_texts body"
    using assms(3) by (simp only: map_resp_text_zip) simp
  have nth: "resp_text (?rs ! i) = req_texts body ! i" if "i < length (req_texts body)" for i
  proof -
    from that len have "resp_text (?rs ! i) = map resp_text ?rs ! i"
      by (simp only: nth_map)
    with texts_eq show ?thesis by simp
  qed
  from r len texts_eq nth show ?thesis by simp
qed

theorem classify_batch_order_witness:
  "\<exists>resp. post_classify_batch
             \<lparr>body_texts = Given [''iPhone 15 Pro Max 256GB'', ''Nike running shoes size 10''],
              body_batch_top_k = Given 1\<rparr>
             \<lparr>classifier = Some short_ranker\<rparr> 0 1 = Inr resp \<and>
          length (results resp) = 2 \<and>
          map resp_text (results resp) = [''iPhone 15 Pro Max 256GB'', ''Nike running shoes size 10''] \<and>
          resp_text (results resp ! 1) = ''Nike running shoes size 10''"
proof -
  let ?ts = "[''iPhone 15 Pro Max 256GB'', ''Nike running shoes size 10'']"
  let ?body = "\<lparr>req_texts = ?ts, req_batch_top_k = Some 1\<rparr>"
  let ?st = "\<lparr>classifier = Some short_ranker\<rparr>"
  have v: "BatchRequest_validate \<lparr>body_texts = Given ?ts, body_batch_top_k = Given 1\<rparr> = Inr ?body"
    by (simp add: BatchRequest_validate_def validate_texts_def validate_top_k_def)
  have c: "call_many short_ranker (req_texts ?body) (req_batch_top_k ?body) 32 =
      Inr [[\<lparr>label = ''electronics'', score = 9\<rparr>], [\<lparr>label = ''electronics'', score = 9\<rparr>]]"
    by (simp add: short_ranker_def short_ranking_def)
  from classify_batch_order [of ?st short_ranker ?body _ 0 1, OF _ c]
  obtain resp where "classify_batch ?body ?st 0 1 = Inr resp"
    and "length (results resp) = length (req_texts ?body)"
    and "map resp_text (results resp) = req_texts ?body"
    and "\<forall>i. i < length (req_texts ?body) \<longrightarrow> resp_text (results resp ! i) = req_texts ?body ! i"
    by auto
  then show ?thesis
    unfolding post_classify_batch_def v by simp
qed

text \<open>
  C5, as the code has it. The pipeline is built with \<^verbatim>\<open>top_k=None\<close>, but the handler
  of \<^verbatim>\<open>/classify\<close> calls it with the text and the \<open>top_k\<close> of the request: the
  handler's result depends on the classifier only through the answer to that
  one call. A request with \<open>top_k = k\<close> asks for \<open>k\<close> entries, and only a request
  whose \<open>top_k\<close> is \<^verbatim>\<open>null\<close> asks for every label. Whatever list comes back, the
  handler keeps its first \<open>top_k\<close> entries and maps each of them.
\<close>

theorem classify_passes_request_top_k:
  "(call_one clf (req_text body) (req_top_k body) = call_one clf' (req_text body) (req_top_k body) \<longrightarrow>
      classify body (st\<lparr>classifier := Some clf\<rparr>) start stop =
      classify body (st\<lparr>classifier := Some clf'\<rparr>) start stop) \<and>
   (req_top_k body = Some k \<and> 0 \<le> k \<and> call_one clf (req_text body) (Some k) = Inr raw \<longrightarrow>
      (\<exists>resp. classify body (st\<lparr>classifier := Some clf\<rparr>) start stop = Inr resp \<and>
         list_all2 (\<lambda>p q. to_prediction (label p) (score p) = Inr q)
           (take (nat k) raw) (predictions resp))) \<and>
   (req_top_k body = None \<and> call_one clf (req_text body) None = Inr raw \<longrightarrow>
      (\<exists>resp. classify body (st\<lparr>classifier := Some clf\<rparr>) start stop = Inr resp \<and>
         list_all2 (\<lambda>p q. to_prediction (label p) (score p) = Inr q) raw (predictions resp)))"
proof (intro conjI impI)
  assume "call_one clf (req_text body) (req_top_k body) = call_one clf' (req_text body) (req_top_k body)"
  then show "classify body (st\<lparr>classifier := Some clf\<rparr>) start stop =
      classify body (st\<lparr>classifier := Some clf'\<rparr>) start stop"
    by (rule classify_depends_on_call)
next
  assume a: "req_top_k body = Some k \<and> 0 \<le> k \<and> call_one clf (req_text body) (Some k) = Inr raw"
  then have "classify body (st\<lparr>classifier := Some clf\<rparr>) start stop =
     Inr \<lparr>resp_text = req_text body,
          predictions = map (\<lambda>p. projr (to_prediction (label p) (score p)))
                          (slice_to raw (req_top_k body)),
          inference_time = stop - start\<rparr>"
    by (simp add: classify_ready)
  with a show "\<exists>resp. classify body (st\<lparr>classifier := Some clf\<rparr>) start stop = Inr resp \<and>
         list_all2 (\<lambda>p q. to_prediction (label p) (score p) = Inr q)
           (take (nat k) raw) (predictions resp)"
    using list_all2_to_prediction [of "take (nat k) raw"] by simp
next
  assume a: "req_top_k body = None \<and> call_one clf (req_text body) None = Inr raw"
  then have "classify body (st\<lparr>classifier := Some clf\<rparr>) start stop =
     Inr \<lparr>resp_text = req_text body,
          predictions = map (\<lambda>p. projr (to_prediction (label p) (score p)))
                          (slice_to raw (req_top_k body)),
          inference_time = stop - start\<rparr>"
    by (simp add: classify_ready)
  with a show "\<exists>resp. classify body (st\<lparr>classifier := Some clf\<rparr>) start stop = Inr resp \<and>
         list_all2 (\<lambda>p q. to_prediction (label p) (score p) = Inr q) raw (predictions resp)"
    by (simp add: list_all2_to_prediction)
qed

text \<open>
  C5, as the specification states it (the handler asks for the full ranking
  and only then truncates), fails. \<open>ranker\<close> and \<open>strict_ranker\<close> give the same
  answer when asked for the full ranking of the text, so a handler asking for
  the full ranking could not tell them apart; with \<open>top_k = 1\<close> in the request
  the handler succeeds on the first and fails on the second, which raises when
  it is handed a \<open>top_k\<close>.
\<close>

theorem classify_requests_full_ranking_counterexample:
  "call_one ranker ''tv'' None = call_one strict_ranker ''tv'' None \<and>
   classify \<lparr>req_text = ''tv'', req_top_k = Some 1\<rparr> \<lparr>classifier = Some ranker\<rparr> 0 1 =
     Inr \<lparr>resp_text = ''tv'',
          predictions = [\<lparr>category_id = 0, category_name = ''electronics'',
                          pred_display_name = ''Electronics'', pred_score = 0\<rparr>],
          inference_time = 1\<rparr> \<and>
   classify \<lparr>req_text = ''tv'', req_top_k = Some 1\<rparr> \<lparr>classifier = Some strict_ranker\<rparr> 0 1 =
     Inl (HTTPException 500 ''Classification failed: top_k is not supported'')"
  by (simp add: classify_def ranker_def strict_ranker_def sample_ranking_def CATEGORIES_items_def
      to_prediction_electronics)

theorem classify_passes_request_top_k_witness:
  "call_one short_ranker ''tv'' (Some 2) = Inr (take 2 short_ranking) \<and>
   (\<exists>resp. classify \<lparr>req_text = ''tv'', req_top_k = Some 2\<rparr> \<lparr>classifier = Some short_ranker\<rparr> 0 1 = Inr resp \<and>
      length (predictions resp) = 2) \<and>
   call_one short_ranker ''tv'' None = Inr short_ranking \<and>
   (\<exists>resp. classify \<lparr>req_text = ''tv'', req_top_k = None\<rparr> \<lparr>classifier = Some short_ranker\<rparr> 0 1 = Inr resp \<and>
      length (predictions resp) = 3)"
proof -
  let ?body = "\<lparr>req_text = ''tv'', req_top_k = Some 2\<rparr>"
  let ?full = "\<lparr>req_text = ''tv'', req_top_k = None\<rparr>"
  note p = classify_passes_request_top_k
    [of short_ranker ?body short_ranker "\<lparr>classifier = None\<rparr>" 0 1 2 "take 2 short_ranking"]
  note q = classify_passes_request_top_k
    [of short_ranker ?full short_ranker "\<lparr>classifier = None\<rparr>" 0 1 0 short_ranking]
  have c: "call_one short_ranker ''tv'' (Some 2) = Inr (take 2 short_ranking)"
    by (simp add: short_ranker_def)
  then have "req_top_k ?body = Some 2 \<and> (0 :: int) \<le> 2 \<and>
      call_one short_ranker (req_text ?body) (Some 2) = Inr (take 2 short_ranking)"
    by simp
  with p obtain resp where
    "classify ?body (\<lparr>classifier = None\<rparr>\<lparr>classifier := Some short_ranker\<rparr>) 0 1 = Inr resp"
    and "list_all2 (\<lambda>p q. to_prediction (label p) (score p) = Inr q)
           (take (nat 2) (take 2 short_ranking)) (predictions resp)"
    by blast
  then have two: "\<exists>resp. classify ?body \<lparr>classifier = Some short_ranker\<rparr> 0 1 = Inr resp \<and>
      length (predictions resp) = 2"
    by (auto simp: short_ranking_def dest: list_all2_lengthD)
  have f: "call_one short_ranker ''tv'' None = Inr short_ranking"
    by (simp add: short_ranker_def)
  then have "req_top_k ?full = None \<and> call_one short_ranker (req_text ?full) None = Inr short_ranking"
    by simp
  with q obtain resp' where
    "classify ?full (\<lparr>classifier = None\<rparr>\<lparr>classifier := Some short_ranker\<rparr>) 0 1 = Inr resp'"
    and "list_all2 (\<lambda>p q. to_prediction (label p) (score p) = Inr q) short_ranking (predictions resp')"
    by blast
  then have three: "\<exists>resp. classify ?full \<lparr>classifier = Some short_ranker\<rparr> 0 1 = Inr resp \<and>
      length (predictions resp) = 3"
    by (auto simp: short_ranking_def dest: list_all2_lengthD)
  from c two f three show ?thesis by blast
qed

text \<open>
  C6. A label that is not in the registry is mapped to the prediction with
  \<open>category_id = -1\<close>, the label as \<open>category_name\<close>, \<open>display_name = "Unknown"\<close>
  and the score unchanged; and whatever labels the classifier returns, the
  single and the batch handler succeed, every entry they keep being mapped.
\<close>

theorem unknown_label_sentinel:
  "(get_category_id lbl = None \<longrightarrow>
      to_prediction lbl sc =
        Inr \<lparr>category_id = - 1, category_name = lbl,
             pred_display_name = ''Unknown'', pred_score = sc\<rparr>) \<and>
   (classifier st = Some clf \<and> call_one clf (req_text body) (req_top_k body) = Inr raw \<longrightarrow>
      (\<exists>resp. classify body st start stop = Inr resp \<and>
         list_all2 (\<lambda>p q. to_prediction (label p) (score p) = Inr q)
           (slice_to raw (req_top_k body)) (predictions resp))) \<and>
   (classifier st = Some clf \<and>
    call_many clf (req_texts bbody) (req_batch_top_k bbody) 32 = Inr all_raw \<longrightarrow>
      (\<exists>bresp. classify_batch bbody st start stop = Inr bresp \<and>
         list_all2
           (\<lambda>(t, raw) r. resp_text r = t \<and>
              list_all2 (\<lambda>p q. to_prediction (label p) (score p) = Inr q)
                (slice_to raw (req_batch_top_k bbody)) (predictions r))
           (zip (req_texts bbody) all_raw) (results bresp)))"
proof (intro conjI impI)
  assume "get_category_id lbl = None"
  then show "to_prediction lbl sc =
        Inr \<lparr>category_id = - 1, category_name = lbl,
             pred_display_name = ''Unknown'', pred_score = sc\<rparr>"
    by (simp add: to_prediction_def)
next
  assume "classifier st = Some clf \<and> call_one clf (req_text body) (req_top_k body) = Inr raw"
  then have "classify body st start stop =
     Inr \<lparr>resp_text = req_text body,
          predictions = map (\<lambda>p. projr (to_prediction (label p) (score p)))
                          (slice_to raw (req_top_k body)),
          inference_time = stop - start\<rparr>"
    by (simp add: classify_ready)
  then show "\<exists>resp. classify body st start stop = Inr resp \<and>
         list_all2 (\<lambda>p q. to_prediction (label p) (score p) = Inr q)
           (slice_to raw (req_top_k body)) (predictions resp)"
    by (simp add: list_all2_to_prediction)
next
  assume "classifier st = Some clf \<and>
    call_many clf (req_texts bbody) (req_batch_top_k bbody) 32 = Inr all_raw"
  then have "classify_batch bbody st start stop =
     Inr \<lparr>results = map (\<lambda>(t, raw).
          \<lparr>resp_text = t,
           predictions = map (\<lambda>p. projr (to_prediction (label p) (score p)))
                           (slice_to raw (req_batch_top_k bbody)),
           inference_time = 0\<rparr>) (zip (req_texts bbody) all_raw),
          total_time = stop - start, count = length (req_texts bbody)\<rparr>"
    by (simp add: classify_batch_ready)
  then show "\<exists>bresp. classify_batch bbody st start stop = Inr bresp \<and>
         list_all2
           (\<lambda>(t, raw) r. resp_text r = t \<and>
              list_all2 (\<lambda>p q. to_prediction (label p) (score p) = Inr q)
                (slice_to raw (req_batch_top_k bbody)) (predictions r))
           (zip (req_texts bbody) all_raw) (results bresp)"
    by (simp add: list_all2_batch_results)
qed

theorem unknown_label_sentinel_witness:
  "get_category_id ''gadgets'' = None \<and>
   to_prediction ''gadgets'' (5 :: int) =
     Inr \<lparr>category_id = - 1, category_name = ''gadgets'',
          pred_display_name = ''Unknown'', pred_score = 5\<rparr> \<and>
   classify \<lparr>req_text = ''tv'', req_top_k = Some 3\<rparr> \<lparr>classifier = Some short_ranker\<rparr> 0 1 =
     Inr \<lparr>resp_text = ''tv'',
          predictions =
            [\<lparr>category_id = 0, category_name = ''electronics'',
              pred_display_name = ''Electronics'', pred_score = 9\<rparr>,
             \<lparr>category_id = - 1, category_name = ''gadgets'',
              pred_display_name = ''Unknown'', pred_score = 5\<rparr>,
             \<lparr>category_id = 6, category_name = ''watches'',
              pred_display_name = ''Watches'', pred_score = 1\<rparr>],
          inference_time = 1\<rparr> \<and>
   (\<exists>bresp. classify_batch \<lparr>req_texts = [''tv'', ''radio''], req_batch_top_k = Some 3\<rparr>
               \<lparr>classifier = Some short_ranker\<rparr> 0 1 = Inr bresp \<and>
             map (\<lambda>r. map category_id (predictions r)) (results bresp) = [[0, - 1, 6], [0, - 1, 6]])"
proof -
  let ?body = "\<lparr>req_text = ''tv'', req_top_k = Some 3\<rparr>"
  let ?bbody = "\<lparr>req_texts = [''tv'', ''radio''], req_batch_top_k = Some 3\<rparr>"
  let ?st = "\<lparr>classifier = Some short_ranker\<rparr>"
  note u = unknown_label_sentinel [of "''gadgets''" "5 :: int" ?st short_ranker ?body short_ranking 0 1
      ?bbody "[short_ranking, short_ranking]"]
  have g: "get_category_id ''gadgets'' = None"
    by (rule get_category_id_gadgets)
  with u have s: "to_prediction ''gadgets'' (5 :: int) =
     Inr \<lparr>category_id = - 1, category_name = ''gadgets'',
          pred_display_name = ''Unknown'', pred_score = 5\<rparr>"
    by blast
  have "classifier ?st = Some short_ranker \<and>
        call_one short_ranker (req_text ?body) (req_top_k ?body) = Inr short_ranking"
    by (simp add: short_ranker_def short_ranking_def)
  with u obtain resp where r: "classify ?body ?st 0 1 = Inr resp"
    and l: "list_all2 (\<lambda>p q. to_prediction (label p) (score p) = Inr q)
           (slice_to short_ranking (req_top_k ?body)) (predictions resp)"
    by blast
  from l obtain a b c where abc: "predictions resp = [a, b, c]"
    and "to_prediction ''electronics'' (9 :: int) = Inr a"
    and "to_prediction ''gadgets'' (5 :: int) = Inr b"
    and "to_prediction ''watches'' (1 :: int) = Inr c"
    by (auto simp: short_ranking_def list_all2_Cons1)
  with s have "predictions resp =
            [\<lparr>category_id = 0, category_name = ''electronics'',
              pred_display_name = ''Electronics'', pred_score = 9\<rparr>,
             \<lparr>category_id = - 1, category_name = ''gadgets'',
              pred_display_name = ''Unknown'', pred_score = 5\<rparr>,
             \<lparr>category_id = 6, category_name = ''watches'',
              pred_display_name = ''Watches'', pred_score = 1\<rparr>]"
    by (simp add: to_prediction_electronics to_prediction_watches)
  moreover from r have "resp_text resp = ''tv''" and "inference_time resp = 1"
    by (auto simp: classify_def split: option.splits sum.splits)
  ultimately have "resp = \<lparr>resp_text = ''tv'',
          predictions =
            [\<lparr>category_id = 0, category_name = ''electronics'',
              pred_display_name = ''Electronics'', pred_score = 9\<rparr>,
             \<lparr>category_id = - 1, category_name = ''gadgets'',
              pred_display_name = ''Unknown'', pred_score = 5\<rparr>,
             \<lparr>category_id = 6, category_name = ''watches'',
              pred_display_name = ''Watches'', pred_score = 1\<rparr>],
          inference_time = 1\<rparr>"
    by simp
  with r have one: "classify ?body ?st 0 1 = Inr \<lparr>resp_text = ''tv'',
          predictions =
            [\<lparr>category_id = 0, category_name = ''electronics'',
              pred_display_name = ''Electronics'', pred_score = 9\<rparr>,
             \<lparr>category_id = - 1, category_name = ''gadgets'',
              pred_display_name = ''Unknown'', pred_score = 5\<rparr>,
             \<lparr>category_id = 6, category_name = ''watches'',
              pred_display_name = ''Watches'', pred_score = 1\<rparr>],
          inference_time = 1\<rparr>"
    by simp
  have "classifier ?st = Some short_ranker \<and>
        call_many short_ranker (req_texts ?bbody) (req_batch_top_k ?bbody) 32 =
          Inr [short_ranking, short_ranking]"
    by (simp add: short_ranker_def short_ranking_def)
  with u obtain bresp where br: "classify_batch ?bbody ?st 0 1 = Inr bresp"
    and bl: "list_all2
           (\<lambda>(t, raw) r. resp_text r = t \<and>
              list_all2 (\<lambda>p q. to_prediction (label p) (score p) = Inr q)
                (slice_to raw (req_batch_top_k ?bbody)) (predictions r))
           (zip (req_texts ?bbody) [short_ranking, short_ranking]) (results bresp)"
    by blast
  from bl have "map (\<lambda>r. map category_id (predictions r)) (results bresp) = [[0, - 1, 6], [0, - 1, 6]]"
    by (auto simp: short_ranking_def list_all2_Cons1 to_prediction_electronics
        to_prediction_watches s)
  with br have many: "\<exists>bresp. classify_batch ?bbody ?st 0 1 = Inr bresp \<and>
      map (\<lambda>r. map category_id (predictions r)) (results bresp) = [[0, - 1, 6], [0, - 1, 6]]"
    by (intro exI [of _ bresp] conjI)
  from g s one many show ?thesis
    by (intro conjI)
qed

text \<open>
  C7. Round trip through the registry: the name stored under an id is mapped
  back to that id by \<open>get_category_id\<close>, and the id a name is mapped to holds a
  record carrying that name.
\<close>

theorem registry_round_trip:
  "(get_category_info cid = Some info \<longrightarrow> get_category_id (name info) = Some cid) \<and>
   (get_category_id nm = Some cid' \<longrightarrow>
      (\<exists>info'. get_category_info cid' = Some info' \<and> name info' = nm))"
  using id_of_info info_of_id by blast

theorem registry_round_trip_witness:
  "get_category_info 6 \<noteq> None \<and> get_category_id ''watches'' = Some 6 \<and>
   get_category_id (name (the (get_category_info 6))) = Some 6 \<and>
   name (the (get_category_info 6)) = ''watches''"
proof -
  note rt = registry_round_trip [of 6 "the (get_category_info 6)" "''watches''" 6]
  have a: "get_category_info 6 \<noteq> None"
    by (simp add: get_category_info_watches)
  then have a': "get_category_info 6 = Some (the (get_category_info 6))"
    by auto
  from rt a' have b: "get_category_id (name (the (get_category_info 6))) = Some 6"
    by blast
  from rt get_category_id_watches
  have "\<exists>info'. get_category_info 6 = Some info' \<and> name info' = ''watches''"
    by blast
  then have c: "name (the (get_category_info 6)) = ''watches''"
    by auto
  from a b c get_category_id_watches show ?thesis
    by blast
qed

text \<open>
  C8. On both routes a \<open>top_k\<close> below 1 or above 32, so 0 and 33 in particular,
  ends in a validation error whatever the other field holds: it is never
  clamped into the range. With \<open>top_k = 32\<close>, the number of categories, a valid
  request reaches its handler, and a response has at most 32 predictions for
  each text.
\<close>

theorem top_k_bounds:
  "(k < 1 \<or> 32 < k \<longrightarrow>
      (\<exists>errs. post_classify \<lparr>body_text = tf, body_top_k = Given k\<rparr> st start stop =
                 Inl (RequestValidationError errs)) \<and>
      (\<exists>errs. post_classify_batch \<lparr>body_texts = tsf, body_batch_top_k = Given k\<rparr> st start stop =
                 Inl (RequestValidationError errs))) \<and>
   validate_top_k (Given 0) = Inl [(''top_k'', greater_than_equal)] \<and>
   validate_top_k (Given 33) = Inl [(''top_k'', less_than_equal)] \<and>
   int (length CATEGORIES_items) = 32 \<and>
   (1 \<le> length s \<and> length s \<le> 2000 \<longrightarrow>
      post_classify \<lparr>body_text = Given s, body_top_k = Given 32\<rparr> st start stop =
        classify \<lparr>req_text = s, req_top_k = Some 32\<rparr> st start stop) \<and>
   (1 \<le> length ts \<and> length ts \<le> 100 \<longrightarrow>
      post_classify_batch \<lparr>body_texts = Given ts, body_batch_top_k = Given 32\<rparr> st start stop =
        classify_batch \<lparr>req_texts = ts, req_batch_top_k = Some 32\<rparr> st start stop) \<and>
   (post_classify \<lparr>body_text = tf, body_top_k = Given 32\<rparr> st start stop = Inr resp \<longrightarrow>
      length (predictions resp) \<le> 32) \<and>
   (post_classify_batch \<lparr>body_texts = tsf, body_batch_top_k = Given 32\<rparr> st start stop = Inr bresp \<longrightarrow>
      (\<forall>r \<in> set (results bresp). length (predictions r) \<le> 32))"
proof (intro conjI impI ballI)
  assume "k < 1 \<or> 32 < k"
  then obtain c where bad: "validate_top_k (Given k) = Inl [(''top_k'', c)]"
    using validate_top_k_out_of_range by blast
  show "\<exists>errs. post_classify \<lparr>body_text = tf, body_top_k = Given k\<rparr> st start stop =
                 Inl (RequestValidationError errs)"
    by (simp add: post_classify_rejects [OF bad])
  show "\<exists>errs. post_classify_batch \<lparr>body_texts = tsf, body_batch_top_k = Given k\<rparr> st start stop =
                 Inl (RequestValidationError errs)"
    by (simp add: post_classify_batch_rejects [OF bad])
next
  show "validate_top_k (Given 0) = Inl [(''top_k'', greater_than_equal)]"
    by (simp add: validate_top_k_def)
  show "validate_top_k (Given 33) = Inl [(''top_k'', less_than_equal)]"
    by (simp add: validate_top_k_def)
  show "int (length CATEGORIES_items) = 32"
    by (simp add: length_CATEGORIES_items)
next
  assume "1 \<le> length s \<and> length s \<le> 2000"
  then show "post_classify \<lparr>body_text = Given s, body_top_k = Given 32\<rparr> st start stop =
        classify \<lparr>req_text = s, req_top_k = Some 32\<rparr> st start stop"
    by (simp add: post_classify_def ClassificationRequest_ok validate_text_ok validate_top_k_ok)
next
  assume "1 \<le> length ts \<and> length ts \<le> 100"
  then show "post_classify_batch \<lparr>body_texts = Given ts, body_batch_top_k = Given 32\<rparr> st start stop =
        classify_batch \<lparr>req_texts = ts, req_batch_top_k = Some 32\<rparr> st start stop"
    by (simp add: post_classify_batch_def BatchRequest_ok validate_texts_ok validate_top_k_ok)
next
  assume "post_classify \<lparr>body_text = tf, body_top_k = Given 32\<rparr> st start stop = Inr resp"
  from post_classify_at_most [OF this, of 32] show "length (predictions resp) \<le> 32"
    by (simp add: validate_top_k_ok)
next
  fix r
  assume "post_classify_batch \<lparr>body_texts = tsf, body_batch_top_k = Given 32\<rparr> st start stop = Inr bresp"
    and "r \<in> set (results bresp)"
  from post_classify_batch_at_most [OF this(1) _ _ this(2), of 32]
  show "length (predictions r) \<le> 32"
    by (simp add: validate_top_k_ok)
qed

theorem top_k_bounds_witness:
  "post_classify \<lparr>body_text = Given ''tv'', body_top_k = Given 0\<rparr> \<lparr>classifier = Some ranker\<rparr> 0 1 =
     Inl (RequestValidationError [(''top_k'', greater_than_equal)]) \<and>
   post_classify \<lparr>body_text = Given ''tv'', body_top_k = Given 33\<rparr> \<lparr>classifier = Some ranker\<rparr> 0 1 =
     Inl (RequestValidationError [(''top_k'', less_than_equal)]) \<and>
   (\<exists>errs. post_classify_batch \<lparr>body_texts = Given [''tv'', ''radio''], body_batch_top_k = Given 33\<rparr>
              \<lparr>classifier = Some ranker\<rparr> 0 1 = Inl (RequestValidationError errs)) \<and>
   (\<exists>resp. post_classify \<lparr>body_text = Given ''tv'', body_top_k = Given 32\<rparr>
              \<lparr>classifier = Some ranker\<rparr> 0 1 = Inr resp \<and>
            length (predictions resp) = 32) \<and>
   (\<exists>bresp. post_classify_batch \<lparr>body_texts = Given [''tv'', ''radio''], body_batch_top_k = Given 32\<rparr>
              \<lparr>classifier = Some ranker\<rparr> 0 1 = Inr bresp \<and>
            map (\<lambda>r. length (predictions r)) (results bresp) = [32, 32])"
proof -
  note b = top_k_bounds [of 33 "Given ''tv''" "\<lparr>classifier = Some ranker\<rparr>" 0 1
      "Given [''tv'', ''radio'']" "''tv''" "[''tv'', ''radio'']"]
  have z: "post_classify \<lparr>body_text = Given ''tv'', body_top_k = Given 0\<rparr> \<lparr>classifier = Some ranker\<rparr> 0 1 =
     Inl (RequestValidationError [(''top_k'', greater_than_equal)])"
    by (simp add: post_classify_def ClassificationRequest_validate_def validate_text_def
        validate_top_k_def errors_of_def)
  have h: "post_classify \<lparr>body_text = Given ''tv'', body_top_k = Given 33\<rparr> \<lparr>classifier = Some ranker\<rparr> 0 1 =
     Inl (RequestValidationError [(''top_k'', less_than_equal)])"
    by (simp add: post_classify_def ClassificationRequest_validate_def validate_text_def
        validate_top_k_def errors_of_def)
  have "(33 :: int) < 1 \<or> 32 < (33 :: int)"
    by simp
  with b have bt: "\<exists>errs. post_classify_batch \<lparr>body_texts = Given [''tv'', ''radio''], body_batch_top_k = Given 33\<rparr>
              \<lparr>classifier = Some ranker\<rparr> 0 1 = Inl (RequestValidationError errs)"
    by blast
  have "1 \<le> length ''tv'' \<and> length ''tv'' \<le> 2000"
    by simp
  with b have one: "post_classify \<lparr>body_text = Given ''tv'', body_top_k = Given 32\<rparr> \<lparr>classifier = Some ranker\<rparr> 0 1 =
        classify \<lparr>req_text = ''tv'', req_top_k = Some 32\<rparr> \<lparr>classifier = Some ranker\<rparr> 0 1"
    by blast
  have "1 \<le> length [''tv'', ''radio''] \<and> length [''tv'', ''radio''] \<le> 100"
    by simp
  with b have many: "post_classify_batch \<lparr>body_texts = Given [''tv'', ''radio''], body_batch_top_k = Given 32\<rparr>
        \<lparr>classifier = Some ranker\<rparr> 0 1 =
        classify_batch \<lparr>req_texts = [''tv'', ''radio''], req_batch_top_k = Some 32\<rparr>
        \<lparr>classifier = Some ranker\<rparr> 0 1"
    by blast
  from classify_batch_ranker [of 32]
  have bm: "\<exists>bresp. classify_batch \<lparr>req_texts = [''tv'', ''radio''], req_batch_top_k = Some 32\<rparr>
              \<lparr>classifier = Some ranker\<rparr> 0 1 = Inr bresp \<and>
     map (\<lambda>r. length (predictions r)) (results bresp) = [32, 32]"
    by (simp add: length_sample_ranking)
  from classify_ranker_32 z h bt bm show ?thesis
    unfolding one many by simp
qed

text \<open>
  C9. \<open>to_prediction\<close> returns a prediction for every label and score: an id
  that \<open>get_category_id\<close> returns is always a key of \<open>CATEGORIES\<close>, the values of
  \<open>NAME_TO_ID\<close> being exactly those keys, so the known-label branch never
  subscripts \<^verbatim>\<open>None\<close>.
\<close>

theorem to_prediction_never_raises:
  "(\<exists>p. to_prediction lbl sc = Inr p) \<and>
   (get_category_id lbl = Some cid \<longrightarrow> get_category_info cid \<noteq> None) \<and>
   ran NAME_TO_ID = dom CATEGORIES"
proof (intro conjI impI)
  show "\<exists>p. to_prediction lbl sc = Inr p"
    by (rule to_prediction_total)
  show "get_category_info cid \<noteq> None" if "get_category_id lbl = Some cid"
    using info_of_id [OF that] by auto
  show "ran NAME_TO_ID = dom CATEGORIES"
    by (auto simp: ran_def dom_def NAME_TO_ID_Some_iff CATEGORIES_Some_iff)
qed

theorem to_prediction_never_raises_witness:
  "get_category_id ''watches'' = Some 6 \<and> get_category_info 6 \<noteq> None \<and>
   (\<exists>p. to_prediction ''watches'' (1 :: int) = Inr p)"
  using to_prediction_never_raises [of "''watches''" "1 :: int" 6] get_category_id_watches
  by blast

text \<open>
  C10. A request that leaves \<open>top_k\<close> out is accepted with \<open>top_k = 5\<close> on both
  routes, and a response to it has at most 5 predictions for each text.
\<close>

theorem top_k_default:
  "(1 \<le> length s \<and> length s \<le> 2000 \<longrightarrow>
      ClassificationRequest_validate \<lparr>body_text = Given s, body_top_k = Omitted\<rparr> =
        Inr \<lparr>req_text = s, req_top_k = Some 5\<rparr> \<and>
      post_classify \<lparr>body_text = Given s, body_top_k = Omitted\<rparr> st start stop =
        classify \<lparr>req_text = s, req_top_k = Some 5\<rparr> st start stop) \<and>
   (1 \<le> length ts \<and> length ts \<le> 100 \<longrightarrow>
      BatchRequest_validate \<lparr>body_texts = Given ts, body_batch_top_k = Omitted\<rparr> =
        Inr \<lparr>req_texts = ts, req_batch_top_k = Some 5\<rparr> \<and>
      post_classify_batch \<lparr>body_texts = Given ts, body_batch_top_k = Omitted\<rparr> st start stop =
        classify_batch \<lparr>req_texts = ts, req_batch_top_k = Some 5\<rparr> st start stop) \<and>
   (post_classify \<lparr>body_text = tf, body_top_k = Omitted\<rparr> st start stop = Inr resp \<longrightarrow>
      length (predictions resp) \<le> 5) \<and>
   (post_classify_batch \<lparr>body_texts = tsf, body_batch_top_k = Omitted\<rparr> st start stop = Inr bresp \<longrightarrow>
      (\<forall>r \<in> set (results bresp). length (predictions r) \<le> 5))"
proof (intro conjI impI ballI)
  assume "1 \<le> length s \<and> length s \<le> 2000"
  then show v: "ClassificationRequest_validate \<lparr>body_text = Given s, body_top_k = Omitted\<rparr> =
        Inr \<lparr>req_text = s, req_top_k = Some 5\<rparr>"
    by (simp add: ClassificationRequest_ok validate_text_ok omitted_top_k_is_5)
  show "post_classify \<lparr>body_text = Given s, body_top_k = Omitted\<rparr> st start stop =
        classify \<lparr>req_text = s, req_top_k = Some 5\<rparr> st start stop"
    by (simp add: post_classify_def v)
next
  assume "1 \<le> length ts \<and> length ts \<le> 100"
  then show v: "BatchRequest_validate \<lparr>body_texts = Given ts, body_batch_top_k = Omitted\<rparr> =
        Inr \<lparr>req_texts = ts, req_batch_top_k = Some 5\<rparr>"
    by (simp add: BatchRequest_ok validate_texts_ok omitted_top_k_is_5)
  show "post_classify_batch \<lparr>body_texts = Given ts, body_batch_top_k = Omitted\<rparr> st start stop =
        classify_batch \<lparr>req_texts = ts, req_batch_top_k = Some 5\<rparr> st start stop"
    by (simp add: post_classify_batch_def v)
next
  assume "post_classify \<lparr>body_text = tf, body_top_k = Omitted\<rparr> st start stop = Inr resp"
  from post_classify_at_most [OF this, of 5] show "length (predictions resp) \<le> 5"
    by (simp add: omitted_top_k_is_5)
next
  fix r
  assume "post_classify_batch \<lparr>body_texts = tsf, body_batch_top_k = Omitted\<rparr> st start stop = Inr bresp"
    and "r \<in> set (results bresp)"
  from post_classify_batch_at_most [OF this(1) _ _ this(2), of 5]
  show "length (predictions r) \<le> 5"
    by (simp add: omitted_top_k_is_5)
qed

theorem top_k_default_witness:
  "ClassificationRequest_validate \<lparr>body_text = Given ''tv'', body_top_k = Omitted\<rparr> =
     Inr \<lparr>req_text = ''tv'', req_top_k = Some 5\<rparr> \<and>
   BatchRequest_validate \<lparr>body_texts = Given [''tv'', ''radio''], body_batch_top_k = Omitted\<rparr> =
     Inr \<lparr>req_texts = [''tv'', ''radio''], req_batch_top_k = Some 5\<rparr> \<and>
   (\<exists>resp. post_classify \<lparr>body_text = Given ''tv'', body_top_k = Omitted\<rparr>
              \<lparr>classifier = Some ranker\<rparr> 0 1 = Inr resp \<and>
            length (predictions resp) = 5) \<and>
   (\<exists>bresp. post_classify_batch \<lparr>body_texts = Given [''tv'', ''radio''], body_batch_top_k = Omitted\<rparr>
              \<lparr>classifier = Some ranker\<rparr> 0 1 = Inr bresp \<and>
            map (\<lambda>r. length (predictions r)) (results bresp) = [5, 5])"
proof -
  note d = top_k_default [of "''tv''" "\<lparr>classifier = Some ranker\<rparr>" 0 1 "[''tv'', ''radio'']"]
  have "1 \<le> length ''tv'' \<and> length ''tv'' \<le> 2000"
    by simp
  with d have v: "ClassificationRequest_validate \<lparr>body_text = Given ''tv'', body_top_k = Omitted\<rparr> =
        Inr \<lparr>req_text = ''tv'', req_top_k = Some 5\<rparr>"
    and p: "post_classify \<lparr>body_text = Given ''tv'', body_top_k = Omitted\<rparr> \<lparr>classifier = Some ranker\<rparr> 0 1 =
        classify \<lparr>req_text = ''tv'', req_top_k = Some 5\<rparr> \<lparr>classifier = Some ranker\<rparr> 0 1"
    by blast+
  have "1 \<le> length [''tv'', ''radio''] \<and> length [''tv'', ''radio''] \<le> 100"
    by simp
  with d have b: "BatchRequest_validate \<lparr>body_texts = Given [''tv'', ''radio''], body_batch_top_k = Omitted\<rparr> =
     Inr \<lparr>req_texts = [''tv'', ''radio''], req_batch_top_k = Some 5\<rparr>"
    and pb: "post_classify_batch \<lparr>body_texts = Given [''tv'', ''radio''], body_batch_top_k = Omitted\<rparr>
        \<lparr>classifier = Some ranker\<rparr> 0 1 =
        classify_batch \<lparr>req_texts = [''tv'', ''radio''], req_batch_top_k = Some 5\<rparr>
        \<lparr>classifier = Some ranker\<rparr> 0 1"
    by blast+
  from classify_batch_ranker [of 5]
  have bm: "\<exists>bresp. classify_batch \<lparr>req_texts = [''tv'', ''radio''], req_batch_top_k = Some 5\<rparr>
              \<lparr>classifier = Some ranker\<rparr> 0 1 = Inr bresp \<and>
     map (\<lambda>r. length (predictions r)) (results bresp) = [5, 5]"
    by (simp add: length_sample_ranking)
  from v b classify_ranker_5 bm show ?thesis
    unfolding p pb by simp
qed

end
